theory Spec2Isabelle
  imports Main
begin

section \<open>Python values used by the authentication layer\<close>

text \<open>
  Exceptions the modelled code can raise. \<open>AttributeError\<close> is Python's error for
  an attribute access on \<open>None\<close>; \<open>HTTPException\<close> carries its status code;
  \<open>NoMatchFound\<close> is the router's error for a route name it does not know;
  \<open>ValueError\<close> is what the constructor of \<open>HTTPException\<close> raises for a status
  code that is not a member of \<open>http.HTTPStatus\<close>, whose phrase it looks up.
\<close>

datatype py_error = AttributeError | TypeError | HTTPException int | NoMatchFound | ValueError

text \<open>
  \<open>Union[str, SecretStr]\<close>: a password is either a plain string or a pydantic
  \<open>SecretStr\<close> wrapping one.
\<close>

datatype secret = Str string | SecretStr string

text \<open>
  The expression \<open>x.get_secret_value() if isinstance(x, SecretStr) else x\<close>.
\<close>

fun secret_value :: "secret \<Rightarrow> string" where
  "secret_value (SecretStr s) = s"
| "secret_value (Str s) = s"

text \<open>
  Truthiness of an \<open>Optional[str]\<close>: \<open>None\<close> and the empty string are falsy.
\<close>

fun truthy_str :: "string option \<Rightarrow> bool" where
  "truthy_str None = False"
| "truthy_str (Some s) = (s \<noteq> [])"

text \<open>
  \<open>a or b\<close> on two \<open>Optional[str]\<close> values: \<open>a\<close> when it is truthy, \<open>b\<close>
  otherwise (whatever \<open>b\<close> is).
\<close>

definition py_or :: "string option \<Rightarrow> string option \<Rightarrow> string option" where
  "py_or a b = (if truthy_str a then a else b)"

text \<open>
  \<open>str.lower()\<close>, on the ASCII letters. The only use is the comparison of a lowered
  scheme with \<open>"bearer"\<close>; no character outside \<open>A..Z\<close> lowers to one of the letters
  of that word, so the comparison is the same as Python's.
\<close>

definition lower_char :: "char \<Rightarrow> char" where
  "lower_char c =
     (if (65::nat) \<le> of_char c \<and> of_char c \<le> (90::nat)
      then char_of (of_char c + (32::nat)) else c)"

definition lower :: "string \<Rightarrow> string" where
  "lower s = map lower_char s"

text \<open>
  \<open>s.partition(" ")\<close>, without the separator: the text before the first space and
  the text after it (both the whole string and the empty string when there is no space).
\<close>

definition partition_space :: "string \<Rightarrow> string \<times> string" where
  "partition_space s =
     (takeWhile (\<lambda>c. c \<noteq> CHR '' '') s, drop 1 (dropWhile (\<lambda>c. c \<noteq> CHR '' '') s))"

text \<open>
  \<open>fastapi.security.utils.get_authorization_scheme_param\<close>: a falsy value gives two
  empty strings, any other value is split at its first space.
\<close>

definition get_authorization_scheme_param :: "string option \<Rightarrow> string \<times> string" where
  "get_authorization_scheme_param authorization =
     (case authorization of
        None \<Rightarrow> ([], [])
      | Some v \<Rightarrow> (if v = [] then ([], []) else partition_space v))"

section \<open>Data model\<close>

text \<open>
  The user model, with the fields the handlers read. \<open>uid\<close> is the column \<open>id\<close>.
\<close>

record user =
  uid :: "int option"
  username :: string
  password :: secret
  email :: string
  is_active :: bool

text \<open>\<open>BaseTokenData\<close>: the payload a token store gives back for a token.\<close>

record token_data =
  td_id :: int
  td_username :: string

text \<open>
  The calls that leave the process: reads and writes of the token store, queries of
  the user table and password verifications. Functions that perform one append it to
  the log they are given, in the order of the \<open>await\<close>s of the source.
\<close>

datatype event =
    ReadToken string
  | WriteToken user
  | UserLookup string
  | EmailLookup string
  | PasswordVerify string string
  | InsertUser user

text \<open>
  An \<open>Auth\<close> object with what it owns: the rows of the user table behind \<open>db\<close>, the
  token store of its backend, the password context, and the key lists the link
  tables give for a user. \<open>auth_ref\<close> is the identity of the object,
  \<open>default_is_active\<close> the default the user model declares for \<open>is_active\<close>, and
  \<open>execute_insert\<close> the outcome of the session executing an insert: \<open>None\<close> when
  it raises, otherwise \<open>rowcount\<close> and \<open>lastrowid\<close>.
\<close>

record auth =
  auth_ref :: nat
  users :: "user list"
  token_store_read :: "string \<Rightarrow> token_data option"
  token_store_write :: "user \<Rightarrow> string"
  pwd_verify :: "string \<Rightarrow> string \<Rightarrow> bool"
  pwd_hash :: "string \<Rightarrow> string"
  role_keys :: "user \<Rightarrow> string list"
  group_keys :: "user \<Rightarrow> string list"
  permission_keys :: "user \<Rightarrow> string list"
  default_is_active :: bool
  execute_insert :: "user \<Rightarrow> (nat \<times> int) option"

text \<open>
  A connection: the \<open>Authorization\<close> header, the cookie of that name, and the two
  keys \<open>auth\<close> and \<open>user\<close> of its scope. Every writer of the scope sets \<open>user\<close>
  whenever it sets \<open>auth\<close>, so a missing \<open>user\<close> key and \<open>None\<close> are both \<open>None\<close>
  here.
\<close>

record conn =
  header_authorization :: "string option"
  cookie_authorization :: "string option"
  scope_auth :: "nat option"
  scope_user :: "user option"

section \<open>AuthBackend\<close>

text \<open>
  \<open>AuthBackend.get_user_token\<close>: the header value or else the cookie value, split
  into scheme and parameter; the parameter is returned when the scheme is
  \<open>bearer\<close> in any letter case.
\<close>

definition get_user_token :: "conn \<Rightarrow> string option" where
  "get_user_token request =
     (let authorization = py_or (header_authorization request) (cookie_authorization request);
          (scheme, token) = get_authorization_scheme_param authorization
      in if \<not> truthy_str authorization \<or> lower scheme \<noteq> ''bearer'' then None
         else Some token)"


text \<open>\<open>Auth.get_user_by_username\<close>: the first row with that username.\<close>

definition get_user_by_username ::
  "auth \<Rightarrow> string \<Rightarrow> event list \<Rightarrow> user option \<times> event list" where
  "get_user_by_username A uname io =
     (find (\<lambda>u. username u = uname) (users A), io @ [UserLookup uname])"

text \<open>
  \<open>Auth.get_user_by_whereclause\<close> at the one clause it is called with,
  \<open>user_model.email == data.email\<close>.
\<close>

definition get_user_by_email ::
  "auth \<Rightarrow> string \<Rightarrow> event list \<Rightarrow> user option \<times> event list" where
  "get_user_by_email A mail io =
     (find (\<lambda>u. email u = mail) (users A), io @ [EmailLookup mail])"

text \<open>
  \<open>AuthBackend.authenticate\<close>. A scope that already holds an \<open>Auth\<close> object (always
  truthy) answers from the scope. Otherwise the scope is initialised with no user,
  and a non-empty token is read from the store; a payload leads to the lookup of its
  username, whose result is stored under \<open>user\<close>. The result read back through
  \<open>request.auth\<close> and \<open>request.user\<close> is the pair of the two scope entries.
\<close>

definition authenticate ::
  "auth \<Rightarrow> conn \<Rightarrow> event list \<Rightarrow> (nat \<times> user option) \<times> conn \<times> event list" where
  "authenticate A request io =
     (case scope_auth request of
        Some a \<Rightarrow> ((a, scope_user request), request, io)
      | None \<Rightarrow>
          (let request1 = request\<lparr>scope_auth := Some (auth_ref A), scope_user := None\<rparr>;
               token = get_user_token request1
           in if \<not> truthy_str token then ((auth_ref A, None), request1, io)
              else
                (case token of
                   None \<Rightarrow> ((auth_ref A, None), request1, io)
                 | Some tok \<Rightarrow>
                     (let io1 = io @ [ReadToken tok]
                      in case token_store_read A tok of
                           None \<Rightarrow> ((auth_ref A, scope_user request1), request1, io1)
                         | Some td \<Rightarrow>
                             (let (usr, io2) = get_user_by_username A (td_username td) io1;
                                  request2 = request1\<lparr>scope_user := usr\<rparr>
                              in ((auth_ref A, scope_user request2), request2, io2))))))"

section \<open>Auth\<close>

text \<open>
  \<open>Auth.authenticate_user\<close>. The stored password is read from \<open>user.password\<close>
  before \<open>user\<close> is tested, so a username with no row raises \<open>AttributeError\<close>.
\<close>

definition authenticate_user ::
  "auth \<Rightarrow> string \<Rightarrow> secret \<Rightarrow> event list \<Rightarrow> (py_error + user option) \<times> event list" where
  "authenticate_user A uname passwd io =
     (let (usr, io1) = get_user_by_username A uname io;
          pwd = secret_value passwd
      in case usr of
           None \<Rightarrow> (Inl AttributeError, io1)
         | Some u \<Rightarrow>
             (let pwd2 = secret_value (password u);
                  io2 = io1 @ [PasswordVerify pwd pwd2]
              in if pwd_verify A pwd pwd2 then (Inr (Some u), io2) else (Inr None, io2)))"

subsection \<open>Requirement specifications\<close>

text \<open>
  One dimension of \<open>requires\<close>, of type \<open>Union[str, Sequence[str]]\<close> with default
  \<open>None\<close>.
\<close>

datatype req = ReqNone | ReqStr string | ReqSeq "string list"

text \<open>Truthiness: \<open>None\<close>, the empty string and the empty sequence are falsy.\<close>

fun truthy_req :: "req \<Rightarrow> bool" where
  "truthy_req ReqNone = False"
| "truthy_req (ReqStr s) = (s \<noteq> [])"
| "truthy_req (ReqSeq ks) = (ks \<noteq> [])"

text \<open>
  \<open>[x] if isinstance(x, str) else list(x)\<close>. The source evaluates it on truthy
  values only; \<open>ReqNone\<close> is given the empty list.
\<close>

fun req_list :: "req \<Rightarrow> string list" where
  "req_list ReqNone = []"
| "req_list (ReqStr s) = [s]"
| "req_list (ReqSeq ks) = ks"

text \<open>
  The set of keys a dimension asks for: none for a falsy value, the string itself for
  a string, the elements for a sequence.
\<close>

fun req_keys :: "req \<Rightarrow> string set" where
  "req_keys ReqNone = {}"
| "req_keys (ReqStr s) = (if s = [] then {} else {s})"
| "req_keys (ReqSeq ks) = set ks"

text \<open>
  Modelled from the spec: \<open>User.has_group\<close>, like \<open>User.has_role\<close> and
  \<open>User.has_permission\<close> below, is a method of the user model in
  \<open>auth/models.py\<close>, which is not among the sources. The spec: load the identity's
  key set of that dimension and require at least one requested key present (any-of
  across the list).
\<close>

definition has_group :: "auth \<Rightarrow> user \<Rightarrow> string list \<Rightarrow> bool" where
  "has_group A u ks = list_ex (\<lambda>k. k \<in> set (group_keys A u)) ks"

text \<open>
  Modelled from the spec: \<open>User.has_role\<close> (in \<open>auth/models.py\<close>), the any-of
  check of the requested keys against the identity's role-key set.
\<close>

definition has_role :: "auth \<Rightarrow> user \<Rightarrow> string list \<Rightarrow> bool" where
  "has_role A u ks = list_ex (\<lambda>k. k \<in> set (role_keys A u)) ks"

text \<open>
  Modelled from the spec: \<open>User.has_permission\<close> (in \<open>auth/models.py\<close>), the
  any-of check against the identity's permission-key set, which the spec takes as
  the union of the permission keys reachable from the identity.
\<close>

definition has_permission :: "auth \<Rightarrow> user \<Rightarrow> string list \<Rightarrow> bool" where
  "has_permission A u ks = list_ex (\<lambda>k. k \<in> set (permission_keys A u)) ks"

text \<open>
  The arguments of \<open>Auth.requires\<close>; \<open>'r\<close> is the type of the substitute response.
\<close>

record 'r requires_args =
  roles :: req
  groups :: req
  permissions :: req
  status_code :: int
  redirect :: "string option"
  response :: "'r option"

text \<open>The defaults of the signature of \<open>requires\<close>.\<close>

definition requires_defaults :: "'r requires_args" where
  "requires_defaults =
     \<lparr>roles = ReqNone, groups = ReqNone, permissions = ReqNone,
      status_code = 403, redirect = None, response = None\<rparr>"

text \<open>
  \<open>has_requires\<close>: the connection is authenticated first; without a user the answer
  is \<open>False\<close>; then groups, roles and permissions are checked in that order, each
  only when its argument is truthy.
\<close>

definition has_requires ::
  "auth \<Rightarrow> 'r requires_args \<Rightarrow> conn \<Rightarrow> event list \<Rightarrow> bool \<times> conn \<times> event list" where
  "has_requires A args cn io =
     (let (res, cn1, io1) = authenticate A cn io
      in case scope_user cn1 of
           None \<Rightarrow> (False, cn1, io1)
         | Some u \<Rightarrow>
             if truthy_req (groups args) \<and> \<not> has_group A u (req_list (groups args))
             then (False, cn1, io1)
             else if truthy_req (roles args) \<and> \<not> has_role A u (req_list (roles args))
             then (False, cn1, io1)
             else if truthy_req (permissions args)
                       \<and> \<not> has_permission A u (req_list (permissions args))
             then (False, cn1, io1)
             else (True, cn1, io1))"

text \<open>
  What \<open>depend\<close> returns: \<open>True\<close>, a \<open>RedirectResponse\<close> with its URL and status,
  or the configured response object.
\<close>

datatype 'r gate_result = PassTrue | RedirectResponse string int | Returned 'r

text \<open>
  \<open>depend\<close>. \<open>url_for\<close> is the router's resolution of a route name
  (\<open>request.url_for\<close>), \<open>None\<close> when it raises \<open>NoMatchFound\<close>; \<open>http_status\<close>
  is membership in the standard table \<open>http.HTTPStatus\<close>, which the constructor of
  \<open>HTTPException\<close> consults when no detail is given. Both belong to the framework
  and are arguments here.
\<close>

definition depend ::
  "auth \<Rightarrow> (string \<Rightarrow> string option) \<Rightarrow> (int \<Rightarrow> bool) \<Rightarrow> 'r requires_args \<Rightarrow> conn
     \<Rightarrow> event list \<Rightarrow> (py_error + 'r gate_result) \<times> conn \<times> event list" where
  "depend A url_for http_status args request io =
     (let (ok, request1, io1) = has_requires A args request io
      in if \<not> ok then
           (case redirect args of
              Some name \<Rightarrow>
                (case url_for name of
                   None \<Rightarrow> (Inl NoMatchFound, request1, io1)
                 | Some url \<Rightarrow> (Inr (RedirectResponse url 303), request1, io1))
            | None \<Rightarrow>
                (case response args of
                   Some r \<Rightarrow> (Inr (Returned r), request1, io1)
                 | None \<Rightarrow>
                     if http_status (status_code args)
                     then (Inl (HTTPException (status_code args)), request1, io1)
                     else (Inl ValueError, request1, io1)))
         else (Inr PassTrue, request1, io1))"

section \<open>Login and registration handlers\<close>

text \<open>
  \<open>UserLoginOut\<close>: the fields copied from an identity by \<open>parse_obj\<close>, and the
  access token, absent until one is issued. Which fields the schema keeps is declared
  outside the sources; the record keeps the identity whole.
\<close>

record token_info =
  ti_user :: user
  access_token :: "string option"

definition parse_obj :: "user \<Rightarrow> token_info" where
  "parse_obj u = \<lparr>ti_user = u, access_token = None\<rparr>"

text \<open>
  The messages of the handlers (Chinese texts in the source): already logged in,
  wrong username or password, user not activated, username already registered, email
  already registered, registration succeeded; \<open>MsgSuccess\<close> is the envelope's default.
\<close>

datatype message =
    MsgSuccess
  | MsgLoggedIn
  | MsgIncorrect
  | MsgInactive
  | MsgUsernameRegistered
  | MsgEmailRegistered
  | MsgRegistered

text \<open>
  The response envelope \<open>BaseApiOut\<close> of the admin framework. Its declared defaults
  are \<open>status = 0\<close>, \<open>msg = 'success'\<close>, \<open>data = None\<close> and \<open>code = None\<close>; a
  handler overrides the fields it names.
\<close>

record api_out =
  status :: int
  code :: "int option"
  msg :: message
  data :: "token_info option"

definition BaseApiOut :: api_out where
  "BaseApiOut = \<lparr>status = 0, code = None, msg = MsgSuccess, data = None\<rparr>"

text \<open>The submitted data of the login form and of the registration form.\<close>

record login_in =
  li_username :: string
  li_password :: secret

record reg_in =
  ri_username :: string
  ri_password :: secret
  ri_email :: string

text \<open>
  \<open>UserLoginFormAdmin.handle\<close>. A request that already carries a user is answered
  with \<open>code=1\<close> at once. Otherwise the credentials are checked; an exception of
  \<open>authenticate_user\<close> propagates.
\<close>

definition login_handle ::
  "auth \<Rightarrow> conn \<Rightarrow> login_in \<Rightarrow> event list \<Rightarrow> (py_error + api_out) \<times> event list" where
  "login_handle A request d io =
     (case scope_user request of
        Some ru \<Rightarrow>
          (Inr (BaseApiOut\<lparr>code := Some 1, msg := MsgLoggedIn, data := Some (parse_obj ru)\<rparr>), io)
      | None \<Rightarrow>
          (case authenticate_user A (li_username d) (li_password d) io of
             (Inl e, io1) \<Rightarrow> (Inl e, io1)
           | (Inr None, io1) \<Rightarrow> (Inr (BaseApiOut\<lparr>status := - 1, msg := MsgIncorrect\<rparr>), io1)
           | (Inr (Some u), io1) \<Rightarrow>
               if \<not> is_active u
               then (Inr (BaseApiOut\<lparr>status := - 2, msg := MsgInactive\<rparr>), io1)
               else
                 (let token_info = parse_obj u;
                      token_info = token_info\<lparr>access_token := Some (token_store_write A u)\<rparr>
                  in (Inr (BaseApiOut\<lparr>code := Some 0, data := Some token_info\<rparr>),
                      io1 @ [WriteToken u]))))"

text \<open>
  The \<open>route\<close> of \<open>route_submit\<close>, as the value it gives the \<open>Authorization\<close> cookie
  (\<open>None\<close> when it sets no cookie): on \<open>status == 0 and code == 0\<close> the cookie is
  \<open>'bearer '\<close> followed by the access token of the result.
\<close>

definition route_submit :: "api_out \<Rightarrow> py_error + string option" where
  "route_submit result =
     (if status result = 0 \<and> code result = Some 0 then
        (case data result of
           None \<Rightarrow> Inl AttributeError
         | Some ti \<Rightarrow>
             (case access_token ti of
                None \<Rightarrow> Inl TypeError
              | Some t \<Rightarrow> Inr (Some (''bearer '' @ t))))
      else Inr None)"

text \<open>
  \<open>UserRegFormAdmin.handle\<close>. The username is looked up first, then the email; each
  hit is answered at once. Otherwise the identity is built from the data, its
  password hashed for the inserted row, the insert executed (an exception becomes
  status 500), the new id taken when a row was inserted, and a token issued.
\<close>

definition reg_handle ::
  "auth \<Rightarrow> conn \<Rightarrow> reg_in \<Rightarrow> event list \<Rightarrow> (py_error + api_out) \<times> event list" where
  "reg_handle A request d io =
     (let (usr, io1) = get_user_by_username A (ri_username d) io
      in case usr of
           Some _ \<Rightarrow>
             (Inr (BaseApiOut\<lparr>status := - 1, msg := MsgUsernameRegistered, data := None\<rparr>), io1)
         | None \<Rightarrow>
             (let (usr2, io2) = get_user_by_email A (ri_email d) io1
              in case usr2 of
                   Some _ \<Rightarrow>
                     (Inr (BaseApiOut\<lparr>status := - 2, msg := MsgEmailRegistered, data := None\<rparr>),
                      io2)
                 | None \<Rightarrow>
                     (let u = \<lparr>uid = None, username = ri_username d, password = ri_password d,
                               email = ri_email d, is_active = default_is_active A\<rparr>
                      in case password u of
                           Str _ \<Rightarrow> (Inl AttributeError, io2)
                         | SecretStr s \<Rightarrow>
                             (let row = u\<lparr>password := Str (pwd_hash A s)\<rparr>;
                                  io3 = io2 @ [InsertUser row]
                              in case execute_insert A row of
                                   None \<Rightarrow> (Inl (HTTPException 500), io3)
                                 | Some (rowcount, lastrowid) \<Rightarrow>
                                     (let u1 = (if rowcount \<noteq> 0 then u\<lparr>uid := Some lastrowid\<rparr>
                                                else u);
                                          token_info = parse_obj u1;
                                          token_info =
                                            token_info\<lparr>access_token :=
                                                         Some (token_store_write A u1)\<rparr>
                                      in (Inr (BaseApiOut\<lparr>code := Some 0, msg := MsgRegistered,
                                                          data := Some token_info\<rparr>),
                                          io3 @ [WriteToken u1]))))))"

section \<open>Token store backends\<close>

text \<open>The failure of an operation a store does not support (\<open>NotImplementedError\<close>).\<close>

datatype store_error = NotImplementedError

text \<open>
  Modelled from the spec: the database-backed token store (\<open>auth/backends/db.py\<close>
  is not among the sources; only its test is). The spec: the store persists a record
  of token, payload and optional expiry; \<open>write_token\<close> generates a random token
  string, inserts the record and returns the string; \<open>read_token\<close> looks the token
  up and treats a record that is found but expired as absent; \<open>destroy_token\<close>
  deletes the record, and deleting a token that does not exist is a success.
  The random string is the argument \<open>fresh\<close>, the clock the argument \<open>now\<close>, the
  configured lifetime \<open>ttl\<close> (none for records that never expire).
\<close>

record 'p token_record =
  tr_payload :: 'p
  tr_issued_at :: nat
  tr_expiry :: "nat option"

text \<open>Modelled from the spec: the table of the store, keyed by token string.\<close>

type_synonym 'p db_store = "string \<Rightarrow> 'p token_record option"

text \<open>
  Modelled from the spec: a record or a signed token with an expiry is expired once
  the clock has reached it; one without never is.
\<close>

definition expired :: "nat \<Rightarrow> nat option \<Rightarrow> bool" where
  "expired now e = (case e of None \<Rightarrow> False | Some t \<Rightarrow> t \<le> now)"

text \<open>Modelled from the spec: \<open>DbTokenStore.write_token\<close>.\<close>

definition db_write_token ::
  "nat option \<Rightarrow> string \<Rightarrow> nat \<Rightarrow> 'p \<Rightarrow> 'p db_store \<Rightarrow> string \<times> 'p db_store" where
  "db_write_token ttl fresh now p st =
     (fresh,
      st(fresh \<mapsto> \<lparr>tr_payload = p, tr_issued_at = now,
                    tr_expiry = map_option (\<lambda>d. now + d) ttl\<rparr>))"

text \<open>Modelled from the spec: \<open>DbTokenStore.read_token\<close>, with lazy expiry.\<close>

definition db_read_token :: "nat \<Rightarrow> string \<Rightarrow> 'p db_store \<Rightarrow> 'p option" where
  "db_read_token now token st =
     (case st token of
        None \<Rightarrow> None
      | Some r \<Rightarrow> (if expired now (tr_expiry r) then None else Some (tr_payload r)))"

text \<open>
  Modelled from the spec: \<open>DbTokenStore.destroy_token\<close>; it succeeds whether or not
  the token has a record.
\<close>

definition db_destroy_token :: "string \<Rightarrow> 'p db_store \<Rightarrow> store_error + 'p db_store" where
  "db_destroy_token token st = Inr (st(token := None))"

text \<open>
  Modelled from the spec: the signed-stateless token store (\<open>auth/backends/jwt.py\<close>
  is not among the sources; only its test is). The spec: \<open>write_token\<close> encodes
  payload and expiry into a signed, tamper-evident string; \<open>read_token\<close> returns
  absent on signature mismatch, expiry or malformed input and never raises;
  \<open>destroy_token\<close> always fails with an unsupported-operation signal.
  A token string is either the encoding of claims with a signature or a string that
  does not decode; the signature of claims under a key is the argument \<open>sign\<close>.
\<close>

record 'p jwt_claims =
  jc_payload :: 'p
  jc_exp :: "nat option"

text \<open>Modelled from the spec: the token strings of the signed-stateless store.\<close>

datatype ('p, 's) jwt = Signed "'p jwt_claims" 's | Malformed string

text \<open>Modelled from the spec: \<open>JwtTokenStore.write_token\<close>.\<close>

definition jwt_write_token ::
  "('k \<Rightarrow> 'p jwt_claims \<Rightarrow> 's) \<Rightarrow> 'k \<Rightarrow> nat option \<Rightarrow> nat \<Rightarrow> 'p \<Rightarrow> ('p, 's) jwt" where
  "jwt_write_token sign key ttl now p =
     (let claims = \<lparr>jc_payload = p, jc_exp = map_option (\<lambda>d. now + d) ttl\<rparr>
      in Signed claims (sign key claims))"

text \<open>
  Modelled from the spec: \<open>JwtTokenStore.read_token\<close>, absent on malformed input,
  on a signature that does not match, and on expiry.
\<close>

definition jwt_read_token ::
  "('k \<Rightarrow> 'p jwt_claims \<Rightarrow> 's) \<Rightarrow> 'k \<Rightarrow> nat \<Rightarrow> ('p, 's) jwt \<Rightarrow> 'p option" where
  "jwt_read_token sign key now token =
     (case token of
        Malformed _ \<Rightarrow> None
      | Signed claims sg \<Rightarrow>
          (if sg \<noteq> sign key claims then None
           else if expired now (jc_exp claims) then None
           else Some (jc_payload claims)))"

text \<open>
  Modelled from the spec: \<open>JwtTokenStore.destroy_token\<close>, which the test of the store
  expects to raise \<open>NotImplementedError\<close>.
\<close>

definition jwt_destroy_token :: "('p, 's) jwt \<Rightarrow> store_error + unit" where
  "jwt_destroy_token token = Inl NotImplementedError"

section \<open>An instance for concrete evaluation\<close>

text \<open>
  Two identities, an active administrator stored with a plain-string hash and an
  inactive guest stored with a \<open>SecretStr\<close>; an \<open>Auth\<close> object over them whose
  token store knows the token \<open>tok1\<close> of the administrator and whose password
  context accepts \<open>hash:p\<close> for the password \<open>p\<close>; and connections: one with a
  bearer header, one with nothing, one already authenticated in its scope, and one
  whose header is present with an empty value beside a bearer cookie.
\<close>

definition demo_admin :: user where
  "demo_admin =
     \<lparr>uid = Some 1, username = ''admin'', password = Str ''hash:admin'',
      email = ''admin@amis.work'', is_active = True\<rparr>"

definition demo_guest :: user where
  "demo_guest =
     \<lparr>uid = Some 2, username = ''guest'', password = SecretStr ''hash:guest'',
      email = ''guest@amis.work'', is_active = False\<rparr>"

definition demo_auth :: auth where
  "demo_auth =
     \<lparr>auth_ref = 7,
      users = [demo_admin, demo_guest],
      token_store_read =
        (\<lambda>t. if t = ''tok1'' then Some \<lparr>td_id = 1, td_username = ''admin''\<rparr> else None),
      token_store_write = (\<lambda>u. ''tok:'' @ username u),
      pwd_verify = (\<lambda>p h. h = ''hash:'' @ p),
      pwd_hash = (\<lambda>p. ''hash:'' @ p),
      role_keys = (\<lambda>u. if username u = ''admin'' then [''admin''] else []),
      group_keys = (\<lambda>u. if username u = ''admin'' then [''staff'', ''ops''] else []),
      permission_keys = (\<lambda>u. []),
      default_is_active = True,
      execute_insert = (\<lambda>u. Some (1, 3))\<rparr>"

definition demo_request :: conn where
  "demo_request =
     \<lparr>header_authorization = Some ''Bearer tok1'', cookie_authorization = None,
      scope_auth = None, scope_user = None\<rparr>"

definition demo_anonymous :: conn where
  "demo_anonymous =
     \<lparr>header_authorization = None, cookie_authorization = None,
      scope_auth = None, scope_user = None\<rparr>"

definition demo_logged_in :: conn where
  "demo_logged_in =
     \<lparr>header_authorization = None, cookie_authorization = Some ''bearer tok1'',
      scope_auth = Some 7, scope_user = Some demo_admin\<rparr>"

definition demo_empty_header :: conn where
  "demo_empty_header =
     \<lparr>header_authorization = Some [], cookie_authorization = Some ''bearer abc'',
      scope_auth = None, scope_user = None\<rparr>"

text \<open>
  A router with the one route \<open>login\<close>, and the status codes of \<open>http.HTTPStatus\<close>.
\<close>

definition demo_url_for :: "string \<Rightarrow> string option" where
  "demo_url_for name = (if name = ''login'' then Some ''/login'' else None)"

definition demo_http_status :: "int \<Rightarrow> bool" where
  "demo_http_status c =
     (c \<in> set [100, 101, 102, 103, 200, 201, 202, 203, 204, 205, 206, 207, 208, 226,
                300, 301, 302, 303, 304, 305, 307, 308,
                400, 401, 402, 403, 404, 405, 406, 407, 408, 409, 410, 411, 412, 413,
                414, 415, 416, 417, 418, 421, 422, 423, 424, 425, 426, 428, 429, 431, 451,
                500, 501, 502, 503, 504, 505, 506, 507, 508, 510, 511])"

definition demo_result :: api_out where
  "demo_result =
     BaseApiOut\<lparr>code := Some 0,
                data := Some \<lparr>ti_user = demo_admin, access_token = Some ''tok1''\<rparr>\<rparr>"

section \<open>Auxiliary facts\<close>

text \<open>
  A truthy requirement is one with a non-empty key set, its list has exactly those
  keys, and the any-of check of one dimension is the intersection test.
\<close>

lemma truthy_req_keys: "truthy_req r \<longleftrightarrow> req_keys r \<noteq> {}"
  by (cases r) auto

lemma req_list_keys: "truthy_req r \<Longrightarrow> set (req_list r) = req_keys r"
  by (cases r) auto

lemma dimension_check:
  "(truthy_req r \<and> \<not> list_ex (\<lambda>k. k \<in> S) (req_list r))
     \<longleftrightarrow> \<not> (req_keys r = {} \<or> S \<inter> req_keys r \<noteq> {})"
  using truthy_req_keys[of r] req_list_keys[of r] by (auto simp: list_ex_iff)

lemma authenticate_cached:
  "scope_auth cn = Some a \<Longrightarrow> authenticate A cn io = ((a, scope_user cn), cn, io)"
  by (simp add: authenticate_def)

lemma authenticate_sets_auth:
  "authenticate A cn io = (r, cn1, io1) \<Longrightarrow>
     scope_auth cn1 \<noteq> None \<and> r = (the (scope_auth cn1), scope_user cn1)"
  by (auto simp: authenticate_def get_user_by_username_def Let_def
      split: option.splits if_splits)

text \<open>
  The two paths of \<open>authenticate_user\<close>: a username without row raises, a username
  with a row gives the identity exactly when the password verifies.
\<close>

lemma authenticate_user_no_row:
  "find (\<lambda>u. username u = uname) (users A) = None \<Longrightarrow>
     fst (authenticate_user A uname passwd io) = Inl AttributeError"
  by (simp add: authenticate_user_def get_user_by_username_def)

lemma authenticate_user_row:
  "find (\<lambda>u. username u = uname) (users A) = Some u \<Longrightarrow>
     fst (authenticate_user A uname passwd io) =
       Inr (if pwd_verify A (secret_value passwd) (secret_value (password u)) then Some u
            else None)"
  by (simp add: authenticate_user_def get_user_by_username_def Let_def)

text \<open>A connection that passes the guard gets \<open>True\<close> from \<open>depend\<close>.\<close>

lemma depend_pass:
  "fst (has_requires A args request io) \<Longrightarrow>
     fst (depend A url_for http_status args request io) = Inr PassTrue"
  by (cases "has_requires A args request io") (simp add: depend_def)

text \<open>\<open>depend\<close> leaves the connection and the log as the guard predicate leaves them.\<close>

lemma depend_state:
  "snd (depend A url_for http_status args request io) = snd (has_requires A args request io)"
  by (cases "has_requires A args request io")
    (simp add: depend_def split: option.splits)

lemma partition_space_bearer: "partition_space (''bearer '' @ t) = (''bearer'', t)"
  by (simp add: partition_space_def)

lemma lower_bearer: "lower ''bearer'' = ''bearer''"
  by code_simp

section \<open>The requirement guard\<close>

text \<open>
  C1. For a connection whose authentication resolves to an identity \<open>u\<close>, and
  for every requirement specification, the guard predicate \<open>has_requires\<close> returns
  true if and only if (the roles are empty or the role keys of \<open>u\<close> intersect
  them) and (the groups are empty or the group keys of \<open>u\<close> intersect them) and
  (the permissions are empty or the permission keys of \<open>u\<close> intersect them).
\<close>

theorem has_requires_iff:
  assumes "scope_user (fst (snd (authenticate A cn io))) = Some u"
  shows "fst (has_requires A args cn io) \<longleftrightarrow>
      (req_keys (roles args) = {} \<or> set (role_keys A u) \<inter> req_keys (roles args) \<noteq> {})
    \<and> (req_keys (groups args) = {} \<or> set (group_keys A u) \<inter> req_keys (groups args) \<noteq> {})
    \<and> (req_keys (permissions args) = {}
         \<or> set (permission_keys A u) \<inter> req_keys (permissions args) \<noteq> {})"
proof -
  obtain res cn1 io1 where a: "authenticate A cn io = (res, cn1, io1)"
    by (cases "authenticate A cn io") auto
  with assms have u: "scope_user cn1 = Some u" by simp
  show ?thesis
    unfolding has_requires_def a
    using dimension_check[of "roles args" "set (role_keys A u)"]
      dimension_check[of "groups args" "set (group_keys A u)"]
      dimension_check[of "permissions args" "set (permission_keys A u)"]
    by (auto simp: u has_group_def has_role_def has_permission_def)
qed

text \<open>
  The administrator of the instance, resolved from the bearer header, has the role
  \<open>admin\<close> and the groups \<open>staff\<close> and \<open>ops\<close> and no permission: a requirement
  of one of the roles \<open>vip\<close>, \<open>admin\<close> and the group \<open>ops\<close> passes, and a
  requirement of the role \<open>admin\<close> and the permission \<open>test\<close> fails.
\<close>

theorem has_requires_iff_witness:
  "scope_user (fst (snd (authenticate demo_auth demo_request []))) = Some demo_admin
   \<and> fst (has_requires demo_auth
        ((requires_defaults :: unit requires_args)
           \<lparr>roles := ReqSeq [''vip'', ''admin''], groups := ReqStr ''ops''\<rparr>) demo_request [])
   \<and> \<not> fst (has_requires demo_auth
        ((requires_defaults :: unit requires_args)
           \<lparr>roles := ReqStr ''admin'', permissions := ReqSeq [''test'']\<rparr>) demo_request [])"
proof -
  have h: "scope_user (fst (snd (authenticate demo_auth demo_request []))) = Some demo_admin"
    by code_simp
  have r: "role_keys demo_auth demo_admin = [''admin'']"
    and g: "group_keys demo_auth demo_admin = [''staff'', ''ops'']"
    and p: "permission_keys demo_auth demo_admin = []"
    by (simp_all add: demo_auth_def demo_admin_def)
  from has_requires_iff[OF h, of "(requires_defaults :: unit requires_args)
           \<lparr>roles := ReqSeq [''vip'', ''admin''], groups := ReqStr ''ops''\<rparr>"]
    has_requires_iff[OF h, of "(requires_defaults :: unit requires_args)
           \<lparr>roles := ReqStr ''admin'', permissions := ReqSeq [''test'']\<rparr>"]
  show ?thesis
    by (simp add: h r g p requires_defaults_def)
qed

text \<open>
  C3. When roles, groups and permissions are all empty, the guard predicate is true
  exactly for the connections whose authentication resolves to an identity: true for
  every connection carrying one, false for every connection with none.
\<close>

theorem has_requires_unconstrained:
  assumes "req_keys (roles args) = {}" and "req_keys (groups args) = {}"
    and "req_keys (permissions args) = {}"
  shows "fst (has_requires A args cn io)
           = (scope_user (fst (snd (authenticate A cn io))) \<noteq> None)"
proof -
  obtain res cn1 io1 where a: "authenticate A cn io = (res, cn1, io1)"
    by (cases "authenticate A cn io") auto
  from assms have "\<not> truthy_req (roles args)" "\<not> truthy_req (groups args)"
    "\<not> truthy_req (permissions args)"
    by (simp_all add: truthy_req_keys)
  then show ?thesis
    by (simp add: has_requires_def a split: option.splits)
qed

text \<open>
  With an empty string and an empty list as requirements the administrator's
  connection passes; with the defaults the connection without a token fails.
\<close>

theorem has_requires_unconstrained_witness:
  "fst (has_requires demo_auth
          ((requires_defaults :: unit requires_args)\<lparr>roles := ReqStr [], groups := ReqSeq []\<rparr>)
          demo_request [])
   \<and> \<not> fst (has_requires demo_auth (requires_defaults :: unit requires_args) demo_anonymous [])"
proof -
  have u: "scope_user (fst (snd (authenticate demo_auth demo_request []))) = Some demo_admin"
    by code_simp
  have n: "scope_user (fst (snd (authenticate demo_auth demo_anonymous []))) = None"
    by code_simp
  from has_requires_unconstrained[of "(requires_defaults :: unit requires_args)
          \<lparr>roles := ReqStr [], groups := ReqSeq []\<rparr>" demo_auth demo_request "[]"]
    has_requires_unconstrained[of "requires_defaults :: unit requires_args"
      demo_auth demo_anonymous "[]"]
  show ?thesis
    by (simp add: u n requires_defaults_def)
qed

text \<open>
  C5, as the claim states it, fails when the configured redirect name is not a
  route of the router, and when neither redirect nor substitute is configured and
  the status code is not a standard one: on the connection without a token the
  guard predicate fails, and \<open>depend\<close> raises \<open>NoMatchFound\<close> in the first case and
  \<open>ValueError\<close> in the second, which is none of the three outcomes.
\<close>

theorem depend_counterexample:
  "\<not> fst (has_requires demo_auth
            ((requires_defaults :: bool requires_args)\<lparr>redirect := Some ''nosuch''\<rparr>)
            demo_anonymous [])
   \<and> demo_url_for ''nosuch'' = None
   \<and> fst (depend demo_auth demo_url_for demo_http_status
            ((requires_defaults :: bool requires_args)\<lparr>redirect := Some ''nosuch''\<rparr>)
            demo_anonymous [])
       = Inl NoMatchFound
   \<and> \<not> demo_http_status 999
   \<and> fst (depend demo_auth demo_url_for demo_http_status
            ((requires_defaults :: bool requires_args)\<lparr>status_code := 999\<rparr>)
            demo_anonymous [])
       = Inl ValueError"
  by code_simp

text \<open>
  C5, amended. When the guard predicate fails, \<open>depend\<close> produces, in this order
  of priority: when a redirect target is configured, a redirect response with
  status 303 to the URL the router resolves its name to (and \<open>NoMatchFound\<close> when
  the router does not know the name); otherwise, when a substitute response is
  configured, that response itself; otherwise an \<open>HTTPException\<close> with the
  configured status code, when the code is a member of \<open>http.HTTPStatus\<close> (and
  \<open>ValueError\<close> when it is not). The default status code is 403.
\<close>

theorem depend_failure_outcome:
  assumes "\<not> fst (has_requires A args request io)"
  shows "fst (depend A url_for http_status args request io) =
           (case redirect args of
              Some name \<Rightarrow>
                (case url_for name of
                   Some url \<Rightarrow> Inr (RedirectResponse url 303)
                 | None \<Rightarrow> Inl NoMatchFound)
            | None \<Rightarrow>
                (case response args of
                   Some r \<Rightarrow> Inr (Returned r)
                 | None \<Rightarrow>
                     if http_status (status_code args) then Inl (HTTPException (status_code args))
                     else Inl ValueError))
         \<and> status_code (requires_defaults :: 'r requires_args) = 403"
proof -
  obtain ok request1 io1 where g: "has_requires A args request io = (ok, request1, io1)"
    by (cases "has_requires A args request io") auto
  with assms have "\<not> ok" by simp
  then show ?thesis
    by (simp add: depend_def g requires_defaults_def split: option.splits)
qed

text \<open>
  On the connection without a token: with the route \<open>login\<close> as redirect and a
  substitute configured the redirect wins, with only the substitute \<open>False\<close> it is
  returned, with the defaults the error is 403, and with the status code 404 it is
  404.
\<close>

theorem depend_failure_outcome_witness:
  "\<not> fst (has_requires demo_auth (requires_defaults :: bool requires_args) demo_anonymous [])
   \<and> fst (depend demo_auth demo_url_for demo_http_status
            ((requires_defaults :: bool requires_args)
               \<lparr>redirect := Some ''login'', response := Some False\<rparr>)
            demo_anonymous [])
       = Inr (RedirectResponse ''/login'' 303)
   \<and> fst (depend demo_auth demo_url_for demo_http_status
            ((requires_defaults :: bool requires_args)\<lparr>response := Some False\<rparr>)
            demo_anonymous [])
       = Inr (Returned False)
   \<and> fst (depend demo_auth demo_url_for demo_http_status
            (requires_defaults :: bool requires_args) demo_anonymous [])
       = Inl (HTTPException 403)
   \<and> fst (depend demo_auth demo_url_for demo_http_status
            ((requires_defaults :: bool requires_args)\<lparr>status_code := 404\<rparr>) demo_anonymous [])
       = Inl (HTTPException 404)"
proof -
  have a: "authenticate demo_auth demo_anonymous [] =
     ((7, None), demo_anonymous\<lparr>scope_auth := Some 7, scope_user := None\<rparr>, [])"
    by code_simp
  have h: "\<not> fst (has_requires demo_auth (a :: bool requires_args) demo_anonymous [])" for a
    by (simp add: has_requires_def a)
  have u: "demo_url_for ''login'' = Some ''/login''"
    by (simp add: demo_url_for_def)
  have k: "demo_http_status 403" "demo_http_status 404"
    by (simp_all add: demo_http_status_def)
  from depend_failure_outcome[OF h, where url_for = demo_url_for
      and http_status = demo_http_status
      and args = "(requires_defaults :: bool requires_args)
                    \<lparr>redirect := Some ''login'', response := Some False\<rparr>"]
    depend_failure_outcome[OF h, where url_for = demo_url_for
      and http_status = demo_http_status
      and args = "(requires_defaults :: bool requires_args)\<lparr>response := Some False\<rparr>"]
    depend_failure_outcome[OF h, where url_for = demo_url_for
      and http_status = demo_http_status
      and args = "requires_defaults :: bool requires_args"]
    depend_failure_outcome[OF h, where url_for = demo_url_for
      and http_status = demo_http_status
      and args = "(requires_defaults :: bool requires_args)\<lparr>status_code := 404\<rparr>"]
  show ?thesis
    by (simp add: h u k requires_defaults_def)
qed

section \<open>The identity resolver\<close>

text \<open>
  C4. A second call of \<open>authenticate\<close> on the connection left by a first call
  returns the result of the first call, which is the pair cached in the scope; it
  leaves the connection as it is and adds nothing to the log of store reads and
  identity lookups.
\<close>

theorem authenticate_twice:
  "(let (r1, cn1, io1) = authenticate A cn io;
        (r2, cn2, io2) = authenticate A cn1 io1
    in r2 = r1 \<and> scope_auth cn1 = Some (fst r1) \<and> scope_user cn1 = snd r1
       \<and> cn2 = cn1 \<and> io2 = io1)"
proof -
  obtain r1 cn1 io1 where a: "authenticate A cn io = (r1, cn1, io1)"
    by (cases "authenticate A cn io") auto
  from authenticate_sets_auth[OF a] obtain b where
    b: "scope_auth cn1 = Some b" and r1: "r1 = (b, scope_user cn1)"
    by auto
  show ?thesis
    by (simp add: a authenticate_cached[OF b] r1 b)
qed

text \<open>
  On the connection with the bearer header the first call reads the token and looks
  the username up; after the second call the log still holds these two entries
  only.
\<close>

theorem authenticate_twice_witness:
  "snd (snd (authenticate demo_auth demo_request [])) = [ReadToken ''tok1'', UserLookup ''admin'']
   \<and> (let (r1, cn1, io1) = authenticate demo_auth demo_request [];
          (r2, cn2, io2) = authenticate demo_auth cn1 io1
      in r2 = (7, Some demo_admin) \<and> scope_user cn2 = Some demo_admin
         \<and> io2 = [ReadToken ''tok1'', UserLookup ''admin''])"
proof -
  have a: "authenticate demo_auth demo_request [] =
     ((7, Some demo_admin), demo_request\<lparr>scope_auth := Some 7, scope_user := Some demo_admin\<rparr>,
      [ReadToken ''tok1'', UserLookup ''admin''])"
    by code_simp
  from authenticate_twice[of demo_auth demo_request "[]"] show ?thesis
    by (simp add: a split: prod.splits)
qed

text \<open>
  C8, as the claim states it, fails on a header that is present with an empty
  value: the header carries no bearer token, and the token returned is the one of
  the cookie.
\<close>

theorem get_user_token_counterexample:
  "header_authorization demo_empty_header = Some []
   \<and> get_user_token demo_empty_header = Some ''abc''
   \<and> get_user_token (demo_empty_header\<lparr>cookie_authorization := None\<rparr>) = None"
  by code_simp

text \<open>
  C8, amended. Token extraction returns the token of the \<open>Authorization\<close> header
  when the header is present with a non-empty value; it falls back to the cookie
  named \<open>Authorization\<close> when the header is absent or empty; the token of the
  selected value is its text after the first space when its scheme is \<open>bearer\<close>
  in any letter case and no token otherwise; there is no token when neither source
  carries a value; and the cookie a login writes, \<open>bearer\<close> in lower case
  followed by the access token, is read back as that access token.
\<close>

theorem get_user_token_sources:
  "(header_authorization request = Some h \<and> h \<noteq> [] \<longrightarrow>
      get_user_token request =
        (if lower (fst (partition_space h)) = ''bearer'' then Some (snd (partition_space h))
         else None))
   \<and> (\<not> truthy_str (header_authorization request) \<and> cookie_authorization request = Some v
        \<and> v \<noteq> [] \<longrightarrow>
      get_user_token request =
        (if lower (fst (partition_space v)) = ''bearer'' then Some (snd (partition_space v))
         else None))
   \<and> (\<not> truthy_str (header_authorization request)
        \<and> \<not> truthy_str (cookie_authorization request) \<longrightarrow>
      get_user_token request = None)
   \<and> (\<not> truthy_str (header_authorization request) \<and> route_submit result = Inr (Some v)
        \<and> cookie_authorization request = Some v \<longrightarrow>
      (\<exists>ti. data result = Some ti \<and> access_token ti \<noteq> None
            \<and> get_user_token request = access_token ti))"
proof (intro conjI impI)
  assume "header_authorization request = Some h \<and> h \<noteq> []"
  then show "get_user_token request =
        (if lower (fst (partition_space h)) = ''bearer'' then Some (snd (partition_space h))
         else None)"
    by (simp add: get_user_token_def py_or_def get_authorization_scheme_param_def
        split: prod.splits)
next
  assume "\<not> truthy_str (header_authorization request) \<and> cookie_authorization request = Some v
        \<and> v \<noteq> []"
  then show "get_user_token request =
        (if lower (fst (partition_space v)) = ''bearer'' then Some (snd (partition_space v))
         else None)"
    by (simp add: get_user_token_def py_or_def get_authorization_scheme_param_def
        split: prod.splits)
next
  assume "\<not> truthy_str (header_authorization request)
        \<and> \<not> truthy_str (cookie_authorization request)"
  then show "get_user_token request = None"
    by (simp add: get_user_token_def py_or_def)
next
  assume a: "\<not> truthy_str (header_authorization request) \<and> route_submit result = Inr (Some v)
        \<and> cookie_authorization request = Some v"
  then obtain ti t where ti: "data result = Some ti" "access_token ti = Some t"
    and v: "v = ''bearer '' @ t"
    by (auto simp: route_submit_def split: if_splits option.splits)
  from a v have "get_user_token request = Some t"
    by (simp add: get_user_token_def py_or_def get_authorization_scheme_param_def
        partition_space_bearer[simplified] lower_bearer)
  with ti show "\<exists>ti. data result = Some ti \<and> access_token ti \<noteq> None
            \<and> get_user_token request = access_token ti"
    by simp
qed

text \<open>
  A bearer header, a header of another scheme, a bearer cookie without header, no
  value at all, and the cookie written for a successful login result.
\<close>

theorem get_user_token_sources_witness:
  "get_user_token demo_request = Some ''tok1''
   \<and> get_user_token (demo_request\<lparr>header_authorization := Some ''Basic tok1''\<rparr>) = None
   \<and> get_user_token demo_logged_in = Some ''tok1''
   \<and> get_user_token demo_anonymous = None
   \<and> route_submit demo_result = Inr (Some ''bearer tok1'')"
proof -
  have p1: "partition_space ''Bearer tok1'' = (''Bearer'', ''tok1'')"
    and p2: "partition_space ''Basic tok1'' = (''Basic'', ''tok1'')"
    and p3: "partition_space ''bearer tok1'' = (''bearer'', ''tok1'')"
    by (simp_all add: partition_space_def)
  have l1: "lower ''Bearer'' = ''bearer''" and l2: "lower ''Basic'' \<noteq> ''bearer''"
    and l3: "lower ''bearer'' = ''bearer''"
    by code_simp+
  have r: "route_submit demo_result = Inr (Some ''bearer tok1'')"
    by (simp add: route_submit_def demo_result_def BaseApiOut_def)
  from get_user_token_sources[where request = demo_request and h = "''Bearer tok1''"]
  have a: "get_user_token demo_request = Some ''tok1''"
    by (simp add: demo_request_def p1 l1)
  from get_user_token_sources[where h = "''Basic tok1''"
      and request = "demo_request\<lparr>header_authorization := Some ''Basic tok1''\<rparr>"]
  have b: "get_user_token (demo_request\<lparr>header_authorization := Some ''Basic tok1''\<rparr>) = None"
    by (simp add: p2 l2)
  from get_user_token_sources[where request = demo_logged_in and v = "''bearer tok1''"
      and result = demo_result]
  have c: "get_user_token demo_logged_in = Some ''tok1''"
    by (simp add: demo_logged_in_def p3 l3)
  from get_user_token_sources[where request = demo_anonymous]
  have d: "get_user_token demo_anonymous = None"
    by (simp add: demo_anonymous_def)
  from a b c d r show ?thesis by simp
qed

section \<open>Credentials and handlers\<close>

text \<open>
  C2. \<open>authenticate_user\<close> on a username that has no row does not return the
  absent result: it raises \<open>AttributeError\<close>, since the stored password is read
  from \<open>user.password\<close> before \<open>user\<close> is tested.
\<close>

theorem authenticate_user_unknown_username:
  "fst (get_user_by_username demo_auth ''ghost'' []) = None
   \<and> fst (authenticate_user demo_auth ''ghost'' (Str ''secret'') []) = Inl AttributeError"
  by code_simp

text \<open>
  C9, as the claim states it, fails on a request that already carries an identity:
  with a wrong password for \<open>admin\<close> the login handler answers with status 0 and
  code 1.
\<close>

theorem login_handle_counterexample:
  "scope_user demo_logged_in = Some demo_admin
   \<and> \<not> pwd_verify demo_auth ''wrong'' (secret_value (password demo_admin))
   \<and> map_sum id status
        (fst (login_handle demo_auth demo_logged_in
                \<lparr>li_username = ''admin'', li_password = Str ''wrong''\<rparr> [])) = Inr 0
   \<and> map_sum id code
        (fst (login_handle demo_auth demo_logged_in
                \<lparr>li_username = ''admin'', li_password = Str ''wrong''\<rparr> [])) = Inr (Some 1)"
  by code_simp

text \<open>
  C9, amended. On a request that carries no identity, the login handler returns
  status -1 when the username has a row and the password does not verify against
  its stored hash, and status -2 when the password verifies and the identity is
  inactive. The registration handler returns status -1 when the username is
  already registered, and status -2 when the username is free and the email is
  already registered.
\<close>

theorem handlers_status:
  "(scope_user request = None
      \<and> find (\<lambda>u. username u = li_username d) (users A) = Some usr
      \<and> \<not> pwd_verify A (secret_value (li_password d)) (secret_value (password usr)) \<longrightarrow>
      fst (login_handle A request d io) = Inr (BaseApiOut\<lparr>status := - 1, msg := MsgIncorrect\<rparr>))
   \<and> (scope_user request = None
      \<and> find (\<lambda>u. username u = li_username d) (users A) = Some usr
      \<and> pwd_verify A (secret_value (li_password d)) (secret_value (password usr))
      \<and> \<not> is_active usr \<longrightarrow>
      fst (login_handle A request d io) = Inr (BaseApiOut\<lparr>status := - 2, msg := MsgInactive\<rparr>))
   \<and> (find (\<lambda>u. username u = ri_username e) (users A) \<noteq> None \<longrightarrow>
      fst (reg_handle A request e io)
        = Inr (BaseApiOut\<lparr>status := - 1, msg := MsgUsernameRegistered, data := None\<rparr>))
   \<and> (find (\<lambda>u. username u = ri_username e) (users A) = None
      \<and> find (\<lambda>u. email u = ri_email e) (users A) \<noteq> None \<longrightarrow>
      fst (reg_handle A request e io)
        = Inr (BaseApiOut\<lparr>status := - 2, msg := MsgEmailRegistered, data := None\<rparr>))"
  by (auto simp: login_handle_def authenticate_user_def reg_handle_def
      get_user_by_username_def get_user_by_email_def Let_def)

text \<open>
  A wrong password for the administrator, the right password of the inactive guest,
  a registration under the administrator's username, and one under a free username
  with the guest's email.
\<close>

theorem handlers_status_witness:
  "map_sum id status
     (fst (login_handle demo_auth demo_anonymous
             \<lparr>li_username = ''admin'', li_password = Str ''wrong''\<rparr> [])) = Inr (- 1)
   \<and> map_sum id status
     (fst (login_handle demo_auth demo_anonymous
             \<lparr>li_username = ''guest'', li_password = SecretStr ''guest''\<rparr> [])) = Inr (- 2)
   \<and> map_sum id status
     (fst (reg_handle demo_auth demo_anonymous
             \<lparr>ri_username = ''admin'', ri_password = SecretStr ''x'',
              ri_email = ''new@amis.work''\<rparr> [])) = Inr (- 1)
   \<and> map_sum id status
     (fst (reg_handle demo_auth demo_anonymous
             \<lparr>ri_username = ''new'', ri_password = SecretStr ''x'',
              ri_email = ''guest@amis.work''\<rparr> [])) = Inr (- 2)"
proof -
  have u: "users demo_auth = [demo_admin, demo_guest]"
    and v: "pwd_verify demo_auth = (\<lambda>p h. h = ''hash:'' @ p)"
    by (simp_all add: demo_auth_def)
  have n: "scope_user demo_anonymous = None"
    by (simp add: demo_anonymous_def)
  from handlers_status[where A = demo_auth and request = demo_anonymous and usr = demo_admin
      and d = "\<lparr>li_username = ''admin'', li_password = Str ''wrong''\<rparr>" and io = "[]"]
  have a: "fst (login_handle demo_auth demo_anonymous
             \<lparr>li_username = ''admin'', li_password = Str ''wrong''\<rparr> [])
           = Inr (BaseApiOut\<lparr>status := - 1, msg := MsgIncorrect\<rparr>)"
    by (simp add: u v n demo_admin_def demo_guest_def)
  from handlers_status[where A = demo_auth and request = demo_anonymous and usr = demo_guest
      and d = "\<lparr>li_username = ''guest'', li_password = SecretStr ''guest''\<rparr>" and io = "[]"]
  have b: "fst (login_handle demo_auth demo_anonymous
             \<lparr>li_username = ''guest'', li_password = SecretStr ''guest''\<rparr> [])
           = Inr (BaseApiOut\<lparr>status := - 2, msg := MsgInactive\<rparr>)"
    by (simp add: u v n demo_admin_def demo_guest_def)
  from handlers_status[where A = demo_auth and request = demo_anonymous and io = "[]"
      and e = "\<lparr>ri_username = ''admin'', ri_password = SecretStr ''x'',
              ri_email = ''new@amis.work''\<rparr>"]
  have c: "fst (reg_handle demo_auth demo_anonymous
             \<lparr>ri_username = ''admin'', ri_password = SecretStr ''x'',
              ri_email = ''new@amis.work''\<rparr> [])
           = Inr (BaseApiOut\<lparr>status := - 1, msg := MsgUsernameRegistered, data := None\<rparr>)"
    by (simp add: u demo_admin_def demo_guest_def)
  from handlers_status[where A = demo_auth and request = demo_anonymous and io = "[]"
      and e = "\<lparr>ri_username = ''new'', ri_password = SecretStr ''x'',
              ri_email = ''guest@amis.work''\<rparr>"]
  have d: "fst (reg_handle demo_auth demo_anonymous
             \<lparr>ri_username = ''new'', ri_password = SecretStr ''x'',
              ri_email = ''guest@amis.work''\<rparr> [])
           = Inr (BaseApiOut\<lparr>status := - 2, msg := MsgEmailRegistered, data := None\<rparr>)"
    by (simp add: u demo_admin_def demo_guest_def)
  show ?thesis
    by (simp add: a b c d)
qed

text \<open>
  C10. When the request already carries an identity, the login handler returns the
  envelope with code 1 whose data are that identity, with no access token, whatever
  username and password are submitted; and the log is unchanged: no lookup, no
  password verification and no token write.
\<close>

theorem login_handle_logged_in:
  assumes "scope_user request = Some ru"
  shows "login_handle A request d io =
           (Inr \<lparr>status = 0, code = Some 1, msg = MsgLoggedIn,
                 data = Some \<lparr>ti_user = ru, access_token = None\<rparr>\<rparr>, io)"
  using assms by (simp add: login_handle_def BaseApiOut_def parse_obj_def)

text \<open>
  The authenticated connection of the instance, with a username that has no row and
  with the administrator's own credentials: both get the administrator's data with
  code 1 and an empty log.
\<close>

theorem login_handle_logged_in_witness:
  "scope_user demo_logged_in = Some demo_admin
   \<and> login_handle demo_auth demo_logged_in
        \<lparr>li_username = ''ghost'', li_password = Str ''wrong''\<rparr> [] =
       (Inr \<lparr>status = 0, code = Some 1, msg = MsgLoggedIn,
             data = Some \<lparr>ti_user = demo_admin, access_token = None\<rparr>\<rparr>, [])
   \<and> login_handle demo_auth demo_logged_in
        \<lparr>li_username = ''admin'', li_password = Str ''admin''\<rparr> [] =
       (Inr \<lparr>status = 0, code = Some 1, msg = MsgLoggedIn,
             data = Some \<lparr>ti_user = demo_admin, access_token = None\<rparr>\<rparr>, [])"
proof -
  have h: "scope_user demo_logged_in = Some demo_admin"
    by (simp add: demo_logged_in_def)
  from login_handle_logged_in[OF h, of demo_auth
      "\<lparr>li_username = ''ghost'', li_password = Str ''wrong''\<rparr>" "[]"]
    login_handle_logged_in[OF h, of demo_auth
      "\<lparr>li_username = ''admin'', li_password = Str ''admin''\<rparr>" "[]"]
  show ?thesis
    by (simp add: h)
qed

section \<open>Laws of the token stores\<close>

text \<open>
  C6. For the database-backed store: a token read while the record written for it
  has not expired gives the payload written; after \<open>destroy_token\<close> a read of that
  token is absent; and \<open>destroy_token\<close> on a token without record succeeds and
  leaves the store as it is.
\<close>

theorem db_token_store_laws:
  "(\<not> expired now' (map_option (\<lambda>d. now + d) ttl) \<longrightarrow>
      (case db_write_token ttl fresh now p st of
         (token, st') \<Rightarrow> db_read_token now' token st' = Some p))
   \<and> (case db_destroy_token token st of
         Inr st' \<Rightarrow> db_read_token now' token st' = None
       | Inl e \<Rightarrow> False)
   \<and> (st token = None \<longrightarrow> db_destroy_token token st = Inr st)"
  by (auto simp: db_write_token_def db_read_token_def db_destroy_token_def)

text \<open>
  A record with a lifetime of 10 written at time 0 and read at time 5, destroyed
  and read again, and the destruction of a token that was never issued.
\<close>

theorem db_token_store_laws_witness:
  "\<not> expired 5 (map_option (\<lambda>d. 0 + d) (Some 10))
   \<and> (case db_write_token (Some 10) ''t1'' 0 (1::nat) Map.empty of
         (token, st') \<Rightarrow> db_read_token 5 token st' = Some 1)
   \<and> (case db_destroy_token ''t1'' (snd (db_write_token (Some 10) ''t1'' 0 (1::nat) Map.empty)) of
         Inr st' \<Rightarrow> db_read_token 5 ''t1'' st' = None
       | Inl e \<Rightarrow> False)
   \<and> (Map.empty :: nat db_store) ''never'' = None
   \<and> db_destroy_token ''never'' (Map.empty :: nat db_store) = Inr Map.empty"
proof -
  have h: "\<not> expired 5 (map_option (\<lambda>d. 0 + d) (Some 10))"
    by (simp add: expired_def)
  have w: "db_write_token (Some 10) ''t1'' 0 (1::nat) Map.empty
             = (''t1'', snd (db_write_token (Some 10) ''t1'' 0 (1::nat) Map.empty))"
    by (simp add: db_write_token_def)
  from db_token_store_laws[where now' = 5 and now = 0 and ttl = "Some 10" and fresh = "''t1''"
      and p = "1::nat" and st = Map.empty and token = "''never''"]
    db_token_store_laws[where now' = 5 and now = 0 and ttl = "Some 10" and fresh = "''t1''"
      and p = "1::nat" and token = "''t1''"
      and st = "snd (db_write_token (Some 10) ''t1'' 0 (1::nat) Map.empty)"]
  show ?thesis
    using h w by simp
qed

text \<open>
  C7. For the signed-stateless store: \<open>destroy_token\<close> fails with
  \<open>NotImplementedError\<close> on every token, which is not a success; and a token read
  before its expiry with the key it was written with gives the payload written.
\<close>

theorem jwt_token_store_laws:
  "jwt_destroy_token token = Inl NotImplementedError
   \<and> jwt_destroy_token token \<noteq> Inr ()
   \<and> (\<not> expired now' (map_option (\<lambda>d. now + d) ttl) \<longrightarrow>
        jwt_read_token sign key now' (jwt_write_token sign key ttl now p) = Some p)"
  by (simp add: jwt_destroy_token_def jwt_read_token_def jwt_write_token_def Let_def)

text \<open>
  A token with a lifetime of 10 written at time 0 and read at time 5.
\<close>

theorem jwt_token_store_laws_witness:
  "\<not> expired 5 (map_option (\<lambda>d. 0 + d) (Some 10))
   \<and> jwt_read_token (\<lambda>k c. (k, jc_exp c)) ''key'' 5
        (jwt_write_token (\<lambda>k c. (k, jc_exp c)) ''key'' (Some 10) 0 (1::nat)) = Some 1
   \<and> jwt_destroy_token (jwt_write_token (\<lambda>k c. (k, jc_exp c)) ''key'' (Some 10) 0 (1::nat))
       = Inl NotImplementedError"
proof -
  have h: "\<not> expired 5 (map_option (\<lambda>d. 0 + d) (Some 10))"
    by (simp add: expired_def)
  from jwt_token_store_laws[where now' = 5 and now = 0 and ttl = "Some 10"
      and sign = "\<lambda>k c. (k, jc_exp c)" and key = "''key''" and p = "1::nat"
      and token = "jwt_write_token (\<lambda>k c. (k, jc_exp c)) ''key'' (Some 10) 0 (1::nat)"]
  show ?thesis
    using h by simp
qed

end
